theory Spec2Isabelle
  imports Main
begin

section \<open>Error taxonomy (src/errors.ts)\<close>

text \<open>
  The classes of the source form a chain \<open>HttpError extends POLYNOCTONError extends Error\<close>.
  The fields of a class are a record, a subclass is the record extended, and the class an
  object was created with (\<open>new.target\<close>) is kept in the field \<open>cls\<close>, so that
  \<open>instanceof\<close> can be decided by walking the chain of superclasses.
\<close>

datatype js_class = ErrorClass | POLYNOCTONErrorClass | HttpErrorClass

fun superclass :: "js_class \<Rightarrow> js_class option" where
  "superclass ErrorClass = None"
| "superclass POLYNOCTONErrorClass = Some ErrorClass"
| "superclass HttpErrorClass = Some POLYNOCTONErrorClass"

fun prototype_chain :: "js_class \<Rightarrow> js_class list" where
  "prototype_chain ErrorClass = [ErrorClass]"
| "prototype_chain POLYNOCTONErrorClass = [POLYNOCTONErrorClass, ErrorClass]"
| "prototype_chain HttpErrorClass = [HttpErrorClass, POLYNOCTONErrorClass, ErrorClass]"

record js_error =
  cls :: js_class
  message :: string
  name :: string

text \<open>\<open>code?: string\<close> and \<open>cause?: unknown\<close>: an absent field is \<open>None\<close>.\<close>

record 'u POLYNOCTONError = js_error +
  code :: "string option"
  cause :: "'u option"

record ('u, 'n) HttpError = "'u POLYNOCTONError" +
  status :: 'n

text \<open>The built-in \<open>Error(message)\<close>, run for an object of class \<open>nt\<close>.\<close>

definition Error_init :: "js_class \<Rightarrow> string \<Rightarrow> js_error" where
  "Error_init nt msg = \<lparr>cls = nt, message = msg, name = ''Error''\<rparr>"

text \<open>
  \<^verbatim>\<open>constructor(message, code?, cause?) { super(message); this.name = "POLYNOCTONError";
    this.code = code; this.cause = cause; }\<close>
\<close>

definition POLYNOCTONError_init ::
  "js_class \<Rightarrow> string \<Rightarrow> string option \<Rightarrow> 'u option \<Rightarrow> 'u POLYNOCTONError" where
  "POLYNOCTONError_init nt msg c cz =
     js_error.extend ((Error_init nt msg)\<lparr>name := ''POLYNOCTONError''\<rparr>)
       (POLYNOCTONError.fields c cz)"

text \<open>
  \<^verbatim>\<open>constructor(status, message, cause?) { super(message, "HTTP_ERROR", cause);
    this.status = status; }\<close>
\<close>

definition HttpError_init ::
  "js_class \<Rightarrow> 'n \<Rightarrow> string \<Rightarrow> 'u option \<Rightarrow> ('u, 'n) HttpError" where
  "HttpError_init nt st msg cz =
     POLYNOCTONError.extend (POLYNOCTONError_init nt msg (Some ''HTTP_ERROR'') cz)
       (HttpError.fields st)"

definition new_Error :: "string \<Rightarrow> js_error" where
  "new_Error msg = Error_init ErrorClass msg"

definition new_POLYNOCTONError :: "string \<Rightarrow> string option \<Rightarrow> 'u option \<Rightarrow> 'u POLYNOCTONError" where
  "new_POLYNOCTONError msg c cz = POLYNOCTONError_init POLYNOCTONErrorClass msg c cz"

definition new_HttpError :: "'n \<Rightarrow> string \<Rightarrow> 'u option \<Rightarrow> ('u, 'n) HttpError" where
  "new_HttpError st msg cz = HttpError_init HttpErrorClass st msg cz"

text \<open>\<open>e instanceof C\<close>: \<open>C\<close> is on the chain of the class \<open>e\<close> was created with.\<close>

definition instanceof :: "'a js_error_scheme \<Rightarrow> js_class \<Rightarrow> bool" where
  "instanceof e c = (c \<in> set (prototype_chain (cls e)))"

text \<open>
  What a \<open>throw\<close> can carry: an object of one of the three classes, or a value that
  comes from outside this repository (a vendor library's exception; \<open>None\<close> is
  \<open>undefined\<close>).
\<close>

datatype ('u, 'n) thrown =
    Thrown_Error js_error
  | Thrown_POLYNOCTONError "'u POLYNOCTONError"
  | Thrown_HttpError "('u, 'n) HttpError"
  | Thrown_Value "'u option"

section \<open>The facade (class POLYCAVORASDK)\<close>

text \<open>\<open>POLYCAVORAConfig\<close>: every field is optional.\<close>

record ('tc, 'rc) POLYCAVORAConfig =
  cfg_metaBaseUrl :: "string option"
  cfg_wsBaseUrl :: "string option"
  cfg_debug :: "bool option"
  cfg_trading :: "'tc option"
  cfg_relayer :: "'rc option"

text \<open>The constructor's default argument \<open>cfg = {}\<close>.\<close>

definition empty_config :: "('tc, 'rc) POLYCAVORAConfig" where
  "empty_config = \<lparr>cfg_metaBaseUrl = None, cfg_wsBaseUrl = None, cfg_debug = None,
     cfg_trading = None, cfg_relayer = None\<rparr>"

text \<open>
  \<open>DEFAULTS\<close> is imported from \<open>./constants.js\<close>, which is not among the sources: its
  two URLs are a parameter of the constructor.
\<close>

record DEFAULTS =
  default_metaBaseUrl :: string
  default_wsBaseUrl :: string

text \<open>
  Modelled from the spec: \<open>createLogger\<close> (\<open>./utils/logger.js\<close>) is not among the sources.
  The spec calls \<open>debug\<close> a "debug logging toggle" that "enables logging": a logger is the
  flag, and \<open>info\<close> writes its line only when the flag is set.
\<close>

record logger =
  enabled :: bool

definition createLogger :: "bool \<Rightarrow> logger" where
  "createLogger dbg = \<lparr>enabled = dbg\<rparr>"

record init_fields =
  log_metaBaseUrl :: string
  log_wsBaseUrl :: string
  log_tradingEnabled :: bool
  log_relayerEnabled :: bool

definition log_info :: "logger \<Rightarrow> string \<Rightarrow> 'd \<Rightarrow> (string \<times> 'd) list" where
  "log_info l tag d = (if enabled l then [(tag, d)] else [])"

record ('tc, 'rc) POLYCAVORASDK =
  metaBaseUrl :: string
  wsBaseUrl :: string
  log :: logger
  tradingConfig :: "'tc option"
  relayerConfig :: "'rc option"

text \<open>\<open>a ?? b\<close>: \<open>b\<close> only when \<open>a\<close> is absent (an empty string is kept).\<close>

definition nullish :: "'a option \<Rightarrow> 'a \<Rightarrow> 'a" where
  "nullish a b = (case a of None \<Rightarrow> b | Some v \<Rightarrow> v)"

text \<open>\<open>!!x\<close> for an optional boolean or an optional object.\<close>

definition truthy_flag :: "bool option \<Rightarrow> bool" where
  "truthy_flag b = (case b of None \<Rightarrow> False | Some v \<Rightarrow> v)"

definition truthy_obj :: "'a option \<Rightarrow> bool" where
  "truthy_obj x = (case x of None \<Rightarrow> False | Some _ \<Rightarrow> True)"

text \<open>
  The constructor: the instance, and the lines it logged. The two \<open>init\<close> closures
  it installs are the functions \<open>trading_init\<close> and \<open>relayer_init\<close> below, which read
  the fields the constructor stored.
\<close>

definition new_POLYCAVORASDK ::
  "DEFAULTS \<Rightarrow> ('tc, 'rc) POLYCAVORAConfig \<Rightarrow>
     ('tc, 'rc) POLYCAVORASDK \<times> (string \<times> init_fields) list" where
  "new_POLYCAVORASDK dflt cfg =
     (let this = \<lparr>metaBaseUrl = nullish (cfg_metaBaseUrl cfg) (default_metaBaseUrl dflt),
                  wsBaseUrl = nullish (cfg_wsBaseUrl cfg) (default_wsBaseUrl dflt),
                  log = createLogger (truthy_flag (cfg_debug cfg)),
                  tradingConfig = cfg_trading cfg,
                  relayerConfig = cfg_relayer cfg\<rparr>
      in (this,
          log_info (log this) ''init''
            \<lparr>log_metaBaseUrl = metaBaseUrl this, log_wsBaseUrl = wsBaseUrl this,
             log_tradingEnabled = truthy_obj (cfg_trading cfg),
             log_relayerEnabled = truthy_obj (cfg_relayer cfg)\<rparr>))"

definition trading_not_configured :: string where
  "trading_not_configured =
     ''Trading is not configured. Please pass 'trading' config to POLYCAVORASDK constructor. '' @
     ''Example: new POLYCAVORASDK({ trading: { chainId: 137, backend: { privateKey: '0x...' } } })''"

definition relayer_not_configured :: string where
  "relayer_not_configured =
     ''Relayer is not configured. Please pass 'relayer' config to POLYCAVORASDK constructor. '' @
     ''Example: new POLYCAVORASDK({ relayer: { chainId: 137, backend: { privateKey: '0x...' } } })\<newline>'' @
     ''Note: Relayer is for ADVANCED gasless transactions. Most users should use 'trading' instead.''"

text \<open>
  \<open>createTradingClient\<close> and \<open>createRelayerClient\<close> are imported from modules that are not
  among the sources. They are a parameter \<open>mk\<close>: a factory that, given the configuration
  and the state of the world \<open>w\<close> (the objects allocated so far), returns a client or
  throws, and the world after it. The closures are synchronous (\<open>init: () => TradingClient\<close>):
  their result is the value or the exception of the call itself, not a promise.
\<close>

definition trading_init ::
  "('tc \<Rightarrow> 'w \<Rightarrow> (('u, 'n) thrown + 'c) \<times> 'w) \<Rightarrow> ('tc, 'rc) POLYCAVORASDK \<Rightarrow> 'w \<Rightarrow>
     (('u, 'n) thrown + 'c) \<times> 'w" where
  "trading_init mk this w =
     (case tradingConfig this of
        None \<Rightarrow> (Inl (Thrown_Error (new_Error trading_not_configured)), w)
      | Some tc \<Rightarrow> mk tc w)"

definition relayer_init ::
  "('rc \<Rightarrow> 'w \<Rightarrow> (('u, 'n) thrown + 'c) \<times> 'w) \<Rightarrow> ('tc, 'rc) POLYCAVORASDK \<Rightarrow> 'w \<Rightarrow>
     (('u, 'n) thrown + 'c) \<times> 'w" where
  "relayer_init mk this w =
     (case relayerConfig this of
        None \<Rightarrow> (Inl (Thrown_Error (new_Error relayer_not_configured)), w)
      | Some rc \<Rightarrow> mk rc w)"

section \<open>HTTP data layer\<close>

text \<open>
  The network: the server's reply to the \<open>k\<close>-th request (counted over the whole run)
  for a URL. The world records every URL requested and every delay slept, in order.
\<close>

datatype http_reply = NetworkFailure string | Response nat string

record http_world =
  requests :: "string list"
  sleeps :: "nat list"

record 'm http_env =
  server :: "string \<Rightarrow> nat \<Rightarrow> http_reply"
  decode_markets :: "string \<Rightarrow> 'm list"
  decode_market :: "string \<Rightarrow> 'm"
  error_message :: "nat \<Rightarrow> string \<Rightarrow> string"

definition http_get :: "'m http_env \<Rightarrow> string \<Rightarrow> http_world \<Rightarrow> http_reply \<times> http_world" where
  "http_get env u w = (server env u (length (requests w)), w\<lparr>requests := requests w @ [u]\<rparr>)"

definition sleep_ms :: "nat \<Rightarrow> http_world \<Rightarrow> http_world" where
  "sleep_ms d w = w\<lparr>sleeps := sleeps w @ [d]\<rparr>"

text \<open>
  Modelled from the spec: \<open>pmFetchMarkets\<close> and \<open>pmFetchMarket\<close>
  (\<open>./providers/polymarket.js\<close>) are not among the sources. Spec, section 6:
  "\<open>GET {metaBaseUrl}/markets\<close> \<rightarrow> array of Market; \<open>GET {metaBaseUrl}/markets/{id}\<close> \<rightarrow>
  single Market. Non-2xx responses raise an HTTP error carrying status and body-derived
  message." A request that gets no response at all is rejected by the platform with an
  \<open>Error\<close>.
\<close>

definition pm_request ::
  "'m http_env \<Rightarrow> (string \<Rightarrow> 'a) \<Rightarrow> string \<Rightarrow> http_world \<Rightarrow> (('u, nat) thrown + 'a) \<times> http_world" where
  "pm_request env dec u w =
     (case http_get env u w of
        (NetworkFailure m, w') \<Rightarrow> (Inl (Thrown_Error (new_Error m)), w')
      | (Response st body, w') \<Rightarrow>
          if 200 \<le> st \<and> st < 300 then (Inr (dec body), w')
          else (Inl (Thrown_HttpError (new_HttpError st (error_message env st body) None)), w'))"

definition markets_url :: "string \<Rightarrow> string" where
  "markets_url base = base @ ''/markets''"

definition market_url :: "string \<Rightarrow> string \<Rightarrow> string" where
  "market_url base marketId = base @ ''/markets/'' @ marketId"

definition pmFetchMarkets ::
  "'m http_env \<Rightarrow> string \<Rightarrow> http_world \<Rightarrow> (('u, nat) thrown + 'm list) \<times> http_world" where
  "pmFetchMarkets env base w = pm_request env (decode_markets env) (markets_url base) w"

definition pmFetchMarket ::
  "'m http_env \<Rightarrow> string \<Rightarrow> string \<Rightarrow> http_world \<Rightarrow> (('u, nat) thrown + 'm) \<times> http_world" where
  "pmFetchMarket env base marketId w =
     pm_request env (decode_market env) (market_url base marketId) w"

text \<open>
  Modelled from the spec: \<open>withRetry\<close> (\<open>./utils/retry.js\<close>) is not among the sources.
  Spec, section 4.1: "on transient failure (network error or server error status), retry
  with exponential backoff up to a bounded attempt count before surfacing a typed HTTP
  error carrying the failing status code and message. Non-retryable client errors (e.g.,
  not-found) propagate immediately without retry." Section 7: "Retry-exhaustion on HTTP
  calls surfaces the last HTTP error encountered."

  The attempt count and the first delay are the options of the policy; the delay before
  the retry that follows the \<open>k\<close>-th failed attempt (counted from 0) is
  \<open>baseDelayMs * 2 ^ k\<close>. With no attempt allowed nothing is requested and there is no
  error to surface: the loop throws its unset last error, \<open>undefined\<close>.
\<close>

record retry_options =
  maxAttempts :: nat
  baseDelayMs :: nat

definition retryable :: "('u, nat) thrown \<Rightarrow> bool" where
  "retryable e =
     (case e of
        Thrown_Error _ \<Rightarrow> True
      | Thrown_HttpError h \<Rightarrow> 500 \<le> status h \<and> status h < 600
      | Thrown_POLYNOCTONError _ \<Rightarrow> False
      | Thrown_Value _ \<Rightarrow> False)"

fun withRetry_loop ::
  "retry_options \<Rightarrow> (nat \<Rightarrow> 'w \<Rightarrow> 'w) \<Rightarrow> ('w \<Rightarrow> (('u, nat) thrown + 'a) \<times> 'w) \<Rightarrow>
     nat \<Rightarrow> nat \<Rightarrow> 'w \<Rightarrow> (('u, nat) thrown + 'a) \<times> 'w" where
  "withRetry_loop opts slp fn 0 k w = (Inl (Thrown_Value None), w)"
| "withRetry_loop opts slp fn (Suc left) k w =
     (case fn w of
        (Inr v, w') \<Rightarrow> (Inr v, w')
      | (Inl e, w') \<Rightarrow>
          if \<not> retryable e then (Inl e, w')
          else if left = 0 then (Inl e, w')
          else withRetry_loop opts slp fn left (Suc k) (slp (baseDelayMs opts * 2 ^ k) w'))"

definition withRetry ::
  "retry_options \<Rightarrow> (nat \<Rightarrow> 'w \<Rightarrow> 'w) \<Rightarrow> ('w \<Rightarrow> (('u, nat) thrown + 'a) \<times> 'w) \<Rightarrow>
     'w \<Rightarrow> (('u, nat) thrown + 'a) \<times> 'w" where
  "withRetry opts slp fn w = withRetry_loop opts slp fn (maxAttempts opts) 0 w"

text \<open>
  \<^verbatim>\<open>async getMarkets() { return withRetry(() => pmFetchMarkets(this.metaBaseUrl)); }\<close>
  \<^verbatim>\<open>async getMarket(marketId) { return withRetry(() => pmFetchMarket(this.metaBaseUrl, marketId)); }\<close>
  Both use the policy's default options, which are a parameter. The result is what the
  returned promise settles to: \<open>Inr\<close> fulfilled, \<open>Inl\<close> rejected.
\<close>

definition getMarkets ::
  "retry_options \<Rightarrow> 'm http_env \<Rightarrow> ('tc, 'rc) POLYCAVORASDK \<Rightarrow> http_world \<Rightarrow>
     (('u, nat) thrown + 'm list) \<times> http_world" where
  "getMarkets opts env this w = withRetry opts sleep_ms (pmFetchMarkets env (metaBaseUrl this)) w"

definition getMarket ::
  "retry_options \<Rightarrow> 'm http_env \<Rightarrow> ('tc, 'rc) POLYCAVORASDK \<Rightarrow> string \<Rightarrow> http_world \<Rightarrow>
     (('u, nat) thrown + 'm) \<times> http_world" where
  "getMarket opts env this marketId w =
     withRetry opts sleep_ms (pmFetchMarket env (metaBaseUrl this) marketId) w"

text \<open>A reply that makes the request fail transiently, and one that makes it succeed.\<close>

fun transient_reply :: "http_reply \<Rightarrow> bool" where
  "transient_reply (NetworkFailure m) = True"
| "transient_reply (Response st body) = (500 \<le> st \<and> st < 600)"

fun ok_reply :: "http_reply \<Rightarrow> bool" where
  "ok_reply (NetworkFailure m) = False"
| "ok_reply (Response st body) = (200 \<le> st \<and> st < 300)"

fun reply_body :: "http_reply \<Rightarrow> string" where
  "reply_body (NetworkFailure m) = []"
| "reply_body (Response st body) = body"

section \<open>Streaming layer\<close>

datatype conn_state = Connecting | Open | Closing | Closed

text \<open>A decoded JSON value, as the platform's \<open>JSON.parse\<close> returns it.\<close>

datatype json =
    JNull
  | JBool bool
  | JNum int
  | JStr string
  | JArr "json list"
  | JObj "(string \<times> json) list"

text \<open>\<open>OrderbookUpdate\<close>: \<open>{type: "snapshot", data}\<close> or \<open>{type: "delta", data}\<close>.\<close>

datatype OrderbookUpdate = snapshot json | delta json

datatype stream_error = BadFrame string | SocketFailure string

datatype invocation = Callback OrderbookUpdate | OnOpen | OnError stream_error | OnClose

text \<open>\<open>opts?: { onError?, onOpen?, onClose? }\<close>: which hooks the caller supplied.\<close>

record hooks =
  has_onError :: bool
  has_onOpen :: bool
  has_onClose :: bool

record subscription =
  url :: string
  market :: string
  opts :: "hooks option"
  state :: conn_state
  calls :: "invocation list"

datatype event = SocketOpen | SocketMessage string | SocketError string | SocketClose | Unsubscribe

definition hook_present :: "(hooks \<Rightarrow> bool) \<Rightarrow> hooks option \<Rightarrow> bool" where
  "hook_present h os = (case os of None \<Rightarrow> False | Some o' \<Rightarrow> h o')"

definition invoke :: "invocation \<Rightarrow> subscription \<Rightarrow> subscription" where
  "invoke c s = s\<lparr>calls := calls s @ [c]\<rparr>"

definition invoke_hook :: "(hooks \<Rightarrow> bool) \<Rightarrow> invocation \<Rightarrow> subscription \<Rightarrow> subscription" where
  "invoke_hook h c s = (if hook_present h (opts s) then invoke c s else s)"

fun classify :: "json \<Rightarrow> OrderbookUpdate option" where
  "classify (JObj fs) =
     (let d = (case map_of fs ''data'' of None \<Rightarrow> JNull | Some v \<Rightarrow> v)
      in case map_of fs ''type'' of
           Some (JStr t) \<Rightarrow>
             if t = ''snapshot'' then Some (snapshot d)
             else if t = ''delta'' then Some (delta d)
             else None
         | _ \<Rightarrow> None)"
| "classify _ = None"

definition decode_frame :: "(string \<Rightarrow> json option) \<Rightarrow> string \<Rightarrow> OrderbookUpdate option" where
  "decode_frame parse f = (case parse f of None \<Rightarrow> None | Some j \<Rightarrow> classify j)"

text \<open>
  Modelled from the spec: \<open>pmSubscribeOrderbook\<close> (\<open>./streams/orderbook.js\<close>) is not among
  the sources. Spec, section 4.2: "State machine: Connecting \<rightarrow> Open \<rightarrow> (receiving messages)
  \<rightarrow> Closing \<rightarrow> Closed. On Open, the onOpen hook fires. On receipt of a frame, the payload is
  parsed and classified as snapshot (full book) or delta (incremental change); the
  appropriate callback invocation carries the typed OrderbookUpdate. On socket error, the
  onError hook fires with the error and the connection transitions toward Closed. On Closed
  (whether caller-initiated or server-initiated), the onClose hook fires. [...] the
  function returned by the subscribe call closes the underlying connection and guarantees
  no further callback invocations after it returns [...] the SDK does not auto-reconnect".
  Section 7: "Streaming errors are delivered via the onError hook rather than thrown".

  A subscription is its connection state and the list of invocations made so far. The
  socket's events and the caller's use of the returned function are the events; \<open>parse\<close>
  is the platform's JSON parser. A frame that does not parse, or carries neither tag, is a
  streaming error.
\<close>

definition pmSubscribeOrderbook :: "string \<Rightarrow> string \<Rightarrow> hooks option \<Rightarrow> subscription" where
  "pmSubscribeOrderbook base marketId os =
     \<lparr>url = base, market = marketId, opts = os, state = Connecting, calls = []\<rparr>"

fun handle :: "(string \<Rightarrow> json option) \<Rightarrow> event \<Rightarrow> subscription \<Rightarrow> subscription" where
  "handle parse SocketOpen s =
     (if state s = Connecting then invoke_hook has_onOpen OnOpen (s\<lparr>state := Open\<rparr>) else s)"
| "handle parse (SocketMessage f) s =
     (if state s = Open then
        (case decode_frame parse f of
           Some u \<Rightarrow> invoke (Callback u) s
         | None \<Rightarrow> invoke_hook has_onError (OnError (BadFrame f)) s)
      else s)"
| "handle parse (SocketError m) s =
     (if state s = Closed then s
      else invoke_hook has_onError (OnError (SocketFailure m)) (s\<lparr>state := Closing\<rparr>))"
| "handle parse SocketClose s =
     (if state s = Closed then s else invoke_hook has_onClose OnClose (s\<lparr>state := Closed\<rparr>))"
| "handle parse Unsubscribe s =
     (if state s = Connecting \<or> state s = Open then s\<lparr>state := Closing\<rparr> else s)"

definition unsubscribe :: "(string \<Rightarrow> json option) \<Rightarrow> subscription \<Rightarrow> subscription" where
  "unsubscribe parse s = handle parse Unsubscribe s"

definition run :: "(string \<Rightarrow> json option) \<Rightarrow> event list \<Rightarrow> subscription \<Rightarrow> subscription" where
  "run parse es s = foldl (\<lambda>t e. handle parse e t) s es"

text \<open>
  \<^verbatim>\<open>onOrderbook(marketId, cb, opts?) { return pmSubscribeOrderbook(this.wsBaseUrl, marketId, cb, opts); }\<close>
  The callback \<open>cb\<close> is always supplied; its invocations are the \<open>Callback\<close> entries.
\<close>

definition onOrderbook ::
  "('tc, 'rc) POLYCAVORASDK \<Rightarrow> string \<Rightarrow> hooks option \<Rightarrow> subscription" where
  "onOrderbook this marketId os = pmSubscribeOrderbook (wsBaseUrl this) marketId os"

fun is_callback :: "invocation \<Rightarrow> bool" where
  "is_callback (Callback u) = True"
| "is_callback _ = False"

definition callbacks :: "subscription \<Rightarrow> invocation list" where
  "callbacks s = filter is_callback (calls s)"

section \<open>Relayer: waiting for a transaction\<close>





section \<open>Predicates used to state the properties\<close>



section \<open>Example inputs\<close>

text \<open>Concrete inputs on which the theorems below are instantiated.\<close>

definition ex_defaults :: DEFAULTS where
  "ex_defaults = \<lparr>default_metaBaseUrl = ''https://meta.example'', default_wsBaseUrl = ''wss://ws.example''\<rparr>"

definition ex_sdk :: "(unit, unit) POLYCAVORASDK" where
  "ex_sdk = fst (new_POLYCAVORASDK ex_defaults empty_config)"

definition ex_retry :: retry_options where
  "ex_retry = \<lparr>maxAttempts = 3, baseDelayMs = 100\<rparr>"

definition ex_flaky :: "string http_env" where
  "ex_flaky = \<lparr>server = (\<lambda>u k. if k < 2 then Response 500 ''busy'' else Response 200 ''ok''),
     decode_markets = (\<lambda>b. [b]), decode_market = (\<lambda>b. b), error_message = (\<lambda>st b. b)\<rparr>"

definition ex_missing :: "string http_env" where
  "ex_missing = \<lparr>server = (\<lambda>u k. Response 404 ''not found''),
     decode_markets = (\<lambda>b. [b]), decode_market = (\<lambda>b. b), error_message = (\<lambda>st b. b)\<rparr>"

definition ex_busy_then_missing :: "string http_env" where
  "ex_busy_then_missing = \<lparr>server = (\<lambda>u k. if k < 1 then Response 500 ''busy'' else Response 404 ''not found''),
     decode_markets = (\<lambda>b. [b]), decode_market = (\<lambda>b. b), error_message = (\<lambda>st b. b)\<rparr>"

definition ex_world :: http_world where
  "ex_world = \<lparr>requests = [], sleeps = []\<rparr>"

definition ex_parse :: "string \<Rightarrow> json option" where
  "ex_parse f =
     (if f = ''S'' then
        Some (JObj [(''type'', JStr ''snapshot''),
                    (''data'', JObj [(''bids'', JArr []), (''asks'', JArr [])])])
      else if f = ''D1'' then Some (JObj [(''type'', JStr ''delta''), (''data'', JNum 1)])
      else if f = ''D2'' then Some (JObj [(''type'', JStr ''delta''), (''data'', JNum 2)])
      else None)"

definition ex_book :: json where
  "ex_book = JObj [(''bids'', JArr []), (''asks'', JArr [])]"




section \<open>Properties of the error taxonomy\<close>

lemmas error_defs = new_Error_def new_POLYNOCTONError_def new_HttpError_def
  HttpError_init_def POLYNOCTONError_init_def Error_init_def
  js_error.defs POLYNOCTONError.defs HttpError.defs

text \<open>
  Claim C7. The taxonomy has two levels below the built-in \<open>Error\<close>: \<open>HttpError\<close>
  extends \<open>POLYNOCTONError\<close>, which extends \<open>Error\<close>. A \<open>POLYNOCTONError\<close> carries
  the message it was built with, the optional code and the optional cause, each exactly
  as passed (absent when not passed). An \<open>HttpError\<close> carries in addition the status it
  was built with, and its base part is what the base constructor builds from the same
  message and cause.
\<close>

theorem error_taxonomy_two_level:
  "superclass HttpErrorClass = Some POLYNOCTONErrorClass
   \<and> superclass POLYNOCTONErrorClass = Some ErrorClass
   \<and> superclass ErrorClass = None
   \<and> cls (new_POLYNOCTONError msg c cz) = POLYNOCTONErrorClass
   \<and> message (new_POLYNOCTONError msg c cz) = msg
   \<and> code (new_POLYNOCTONError msg c cz) = c
   \<and> cause (new_POLYNOCTONError msg c cz) = cz
   \<and> cls (new_HttpError st msg cz) = HttpErrorClass
   \<and> status (new_HttpError st msg cz) = st
   \<and> POLYNOCTONError.truncate (new_HttpError st msg cz) =
       POLYNOCTONError_init HttpErrorClass msg (Some ''HTTP_ERROR'') cz"
  by (simp add: error_defs)

text \<open>
  Claim C8. Whatever status, message and cause an \<open>HttpError\<close> is built with, it is an
  instance of \<open>POLYNOCTONError\<close> (and of \<open>Error\<close>), and its code is the fixed string
  \<open>HTTP_ERROR\<close>.
\<close>

theorem http_error_is_sdk_error:
  "instanceof (new_HttpError st msg cz) POLYNOCTONErrorClass
   \<and> instanceof (new_HttpError st msg cz) ErrorClass
   \<and> code (new_HttpError st msg cz) = Some ''HTTP_ERROR''"
  by (simp add: error_defs instanceof_def)

section \<open>Properties of the facade\<close>

text \<open>
  Claim C4. On an instance constructed from a configuration without \<open>trading\<close>, the call
  \<open>trading.init()\<close> itself throws, whatever the factory is and without running it (the
  world is unchanged): an \<open>Error\<close> whose message starts "Trading is not configured.".
  Likewise \<open>relayer.init()\<close> without \<open>relayer\<close>, with "Relayer is not configured.". When
  the configuration is present, \<open>init()\<close> is the factory's call on that configuration: it
  returns the client the factory returns.
\<close>

theorem init_configuration_gate:
  "(cfg_trading cfg = None \<longrightarrow>
      trading_init mk (fst (new_POLYCAVORASDK dflt cfg)) w =
        (Inl (Thrown_Error (new_Error trading_not_configured)), w))
   \<and> (cfg_relayer cfg = None \<longrightarrow>
      relayer_init mk' (fst (new_POLYCAVORASDK dflt cfg)) w =
        (Inl (Thrown_Error (new_Error relayer_not_configured)), w))
   \<and> (\<forall>tc. cfg_trading cfg = Some tc \<longrightarrow>
        trading_init mk (fst (new_POLYCAVORASDK dflt cfg)) w = mk tc w)
   \<and> (\<forall>rc. cfg_relayer cfg = Some rc \<longrightarrow>
        relayer_init mk' (fst (new_POLYCAVORASDK dflt cfg)) w = mk' rc w)
   \<and> take 26 (message (new_Error trading_not_configured)) = ''Trading is not configured.''
   \<and> take 26 (message (new_Error relayer_not_configured)) = ''Relayer is not configured.''"
  by (simp add: trading_init_def relayer_init_def new_POLYCAVORASDK_def Let_def
      new_Error_def Error_init_def trading_not_configured_def relayer_not_configured_def)

theorem init_configuration_gate_witness:
  "trading_init (\<lambda>tc n. (Inr (n, tc), Suc n))
     (fst (new_POLYCAVORASDK \<lparr>default_metaBaseUrl = ''https://meta'', default_wsBaseUrl = ''wss://ws''\<rparr>
        (empty_config :: (nat \<times> string, nat \<times> string) POLYCAVORAConfig))) (0::nat)
     = (Inl (Thrown_Error (new_Error trading_not_configured) :: (unit, nat) thrown), 0)
   \<and> relayer_init (\<lambda>rc n. (Inr (n, rc), Suc n))
     (fst (new_POLYCAVORASDK \<lparr>default_metaBaseUrl = ''https://meta'', default_wsBaseUrl = ''wss://ws''\<rparr>
        (empty_config :: (nat \<times> string, nat \<times> string) POLYCAVORAConfig))) (0::nat)
     = (Inl (Thrown_Error (new_Error relayer_not_configured) :: (unit, nat) thrown), 0)
   \<and> trading_init (\<lambda>tc n. (Inr (n, tc) :: (unit, nat) thrown + _, Suc n))
     (fst (new_POLYCAVORASDK \<lparr>default_metaBaseUrl = ''https://meta'', default_wsBaseUrl = ''wss://ws''\<rparr>
        (empty_config\<lparr>cfg_trading := Some (137::nat, ''0xabc''), cfg_relayer := Some (137::nat, ''0xdef'')\<rparr>))) (0::nat)
     = (Inr (0, 137, ''0xabc''), 1)
   \<and> relayer_init (\<lambda>rc n. (Inr (n, rc) :: (unit, nat) thrown + _, Suc n))
     (fst (new_POLYCAVORASDK \<lparr>default_metaBaseUrl = ''https://meta'', default_wsBaseUrl = ''wss://ws''\<rparr>
        (empty_config\<lparr>cfg_trading := Some (137::nat, ''0xabc''), cfg_relayer := Some (137::nat, ''0xdef'')\<rparr>))) (0::nat)
     = (Inr (0, 137, ''0xdef''), 1)"
  using
    init_configuration_gate [of "empty_config :: (nat \<times> string, nat \<times> string) POLYCAVORAConfig"
      "\<lambda>tc n. (Inr (n, tc) :: (unit, nat) thrown + nat \<times> nat \<times> string, Suc n)"
      "\<lparr>default_metaBaseUrl = ''https://meta'', default_wsBaseUrl = ''wss://ws''\<rparr>" "0::nat"
      "\<lambda>rc n. (Inr (n, rc) :: (unit, nat) thrown + nat \<times> nat \<times> string, Suc n)"]
    init_configuration_gate [of "empty_config\<lparr>cfg_trading := Some (137::nat, ''0xabc''), cfg_relayer := Some (137::nat, ''0xdef'')\<rparr>"
      "\<lambda>tc n. (Inr (n, tc) :: (unit, nat) thrown + nat \<times> nat \<times> string, Suc n)"
      "\<lparr>default_metaBaseUrl = ''https://meta'', default_wsBaseUrl = ''wss://ws''\<rparr>" "0::nat"
      "\<lambda>rc n. (Inr (n, rc) :: (unit, nat) thrown + nat \<times> nat \<times> string, Suc n)"]
  by (simp add: empty_config_def)

text \<open>
  Claim C9. On a configured instance every call of \<open>init()\<close> runs the factory anew on
  the configuration captured by the constructor: the first call is the factory's call
  in the current world, and a second call, made in the world the first one left, is
  again the factory's call on the same configuration; no earlier client is returned.
\<close>

theorem init_not_cached:
  assumes "this = fst (new_POLYCAVORASDK dflt cfg)"
  shows "(\<forall>tc. cfg_trading cfg = Some tc \<longrightarrow>
            trading_init mk this w = mk tc w
            \<and> trading_init mk this (snd (trading_init mk this w)) = mk tc (snd (mk tc w)))
       \<and> (\<forall>rc. cfg_relayer cfg = Some rc \<longrightarrow>
            relayer_init mk' this w = mk' rc w
            \<and> relayer_init mk' this (snd (relayer_init mk' this w)) = mk' rc (snd (mk' rc w)))"
  using assms
  by (simp add: trading_init_def relayer_init_def new_POLYCAVORASDK_def Let_def)

theorem init_not_cached_witness:
  "trading_init (\<lambda>tc n. (Inr (n, tc) :: (unit, nat) thrown + _, Suc n))
     (fst (new_POLYCAVORASDK \<lparr>default_metaBaseUrl = ''https://meta'', default_wsBaseUrl = ''wss://ws''\<rparr>
        (empty_config\<lparr>cfg_trading := Some (137::nat, ''0xabc''), cfg_relayer := Some (137::nat, ''0xdef'')\<rparr>))) (0::nat)
     = (Inr (0, 137, ''0xabc''), 1)
   \<and> trading_init (\<lambda>tc n. (Inr (n, tc) :: (unit, nat) thrown + _, Suc n))
     (fst (new_POLYCAVORASDK \<lparr>default_metaBaseUrl = ''https://meta'', default_wsBaseUrl = ''wss://ws''\<rparr>
        (empty_config\<lparr>cfg_trading := Some (137::nat, ''0xabc''), cfg_relayer := Some (137::nat, ''0xdef'')\<rparr>))) (1::nat)
     = (Inr (1, 137, ''0xabc''), 2)
   \<and> relayer_init (\<lambda>rc n. (Inr (n, rc) :: (unit, nat) thrown + _, Suc n))
     (fst (new_POLYCAVORASDK \<lparr>default_metaBaseUrl = ''https://meta'', default_wsBaseUrl = ''wss://ws''\<rparr>
        (empty_config\<lparr>cfg_trading := Some (137::nat, ''0xabc''), cfg_relayer := Some (137::nat, ''0xdef'')\<rparr>))) (1::nat)
     = (Inr (1, 137, ''0xdef''), 2)"
  using
    init_not_cached [OF refl,
      of "empty_config\<lparr>cfg_trading := Some (137::nat, ''0xabc''), cfg_relayer := Some (137::nat, ''0xdef'')\<rparr>"
      "\<lambda>tc n. (Inr (n, tc) :: (unit, nat) thrown + nat \<times> nat \<times> string, Suc n)"
      "\<lparr>default_metaBaseUrl = ''https://meta'', default_wsBaseUrl = ''wss://ws''\<rparr>" "0::nat"
      "\<lambda>rc n. (Inr (n, rc) :: (unit, nat) thrown + nat \<times> nat \<times> string, Suc n)"]
  by (simp add: empty_config_def new_POLYCAVORASDK_def Let_def trading_init_def relayer_init_def)

text \<open>
  Claim C10. The constructor is total, and on the empty configuration it yields the
  instance with the two default URLs, logging off and no trading or relayer
  configuration. On that instance \<open>getMarkets\<close>, \<open>getMarket\<close> and \<open>onOrderbook\<close> are the
  data and streaming layers on the default URLs; and on any configuration they give
  what they give when its \<open>trading\<close> and \<open>relayer\<close> entries are removed.
\<close>

theorem empty_configuration_operational:
  "fst (new_POLYCAVORASDK dflt empty_config) =
     \<lparr>metaBaseUrl = default_metaBaseUrl dflt, wsBaseUrl = default_wsBaseUrl dflt,
      log = createLogger False, tradingConfig = None, relayerConfig = None\<rparr>
   \<and> getMarkets ro env (fst (new_POLYCAVORASDK dflt empty_config)) w =
       withRetry ro sleep_ms (pmFetchMarkets env (default_metaBaseUrl dflt)) w
   \<and> getMarket ro env (fst (new_POLYCAVORASDK dflt empty_config)) marketId w =
       withRetry ro sleep_ms (pmFetchMarket env (default_metaBaseUrl dflt) marketId) w
   \<and> onOrderbook (fst (new_POLYCAVORASDK dflt empty_config)) marketId os =
       pmSubscribeOrderbook (default_wsBaseUrl dflt) marketId os
   \<and> getMarkets ro env (fst (new_POLYCAVORASDK dflt cfg)) w =
       getMarkets ro env (fst (new_POLYCAVORASDK dflt (cfg\<lparr>cfg_trading := None, cfg_relayer := None\<rparr>))) w
   \<and> getMarket ro env (fst (new_POLYCAVORASDK dflt cfg)) marketId w =
       getMarket ro env (fst (new_POLYCAVORASDK dflt (cfg\<lparr>cfg_trading := None, cfg_relayer := None\<rparr>))) marketId w
   \<and> onOrderbook (fst (new_POLYCAVORASDK dflt cfg)) marketId os =
       onOrderbook (fst (new_POLYCAVORASDK dflt (cfg\<lparr>cfg_trading := None, cfg_relayer := None\<rparr>))) marketId os"
  by (simp add: new_POLYCAVORASDK_def Let_def empty_config_def nullish_def truthy_flag_def
      getMarkets_def getMarket_def onOrderbook_def)

section \<open>Properties of the HTTP data layer\<close>

lemmas ex_defs = ex_defaults_def ex_sdk_def ex_retry_def ex_flaky_def ex_missing_def
  ex_busy_then_missing_def ex_world_def

lemmas http_defs = getMarkets_def getMarket_def withRetry_def pmFetchMarkets_def pmFetchMarket_def
  pm_request_def http_get_def sleep_ms_def retryable_def markets_url_def market_url_def
  new_POLYCAVORASDK_def empty_config_def nullish_def truthy_flag_def Let_def

lemma pm_request_world:
  "snd (pm_request env dec u w) = w\<lparr>requests := requests w @ [u]\<rparr>"
  by (simp add: pm_request_def http_get_def split: http_reply.splits)

lemma pm_request_ok:
  "ok_reply (server env u (length (requests w))) \<Longrightarrow>
   pm_request env dec u w =
     (Inr (dec (reply_body (server env u (length (requests w))))), w\<lparr>requests := requests w @ [u]\<rparr>)"
  by (cases "server env u (length (requests w))") (simp_all add: pm_request_def http_get_def)

lemma pm_request_transient:
  "transient_reply (server env u (length (requests w))) \<Longrightarrow>
   \<exists>e. pm_request env dec u w = (Inl e, w\<lparr>requests := requests w @ [u]\<rparr>) \<and> retryable e"
  by (cases "server env u (length (requests w))")
     (simp_all add: pm_request_def http_get_def retryable_def error_defs)

lemma pm_request_client_error:
  "server env u (length (requests w)) = Response st body \<Longrightarrow> 400 \<le> st \<Longrightarrow> st < 500 \<Longrightarrow>
   pm_request env dec u w =
     (Inl (Thrown_HttpError (new_HttpError st (error_message env st body) None)),
      w\<lparr>requests := requests w @ [u]\<rparr>)
   \<and> \<not> retryable (Thrown_HttpError (new_HttpError st (error_message env st body) None))"
  by (simp add: pm_request_def http_get_def retryable_def error_defs)

lemma retry_loop_trace:
  fixes fn :: "http_world \<Rightarrow> (('u, nat) thrown + 'a) \<times> http_world"
  assumes fn: "fn = pm_request env dec u"
  shows "\<exists>n\<le>left. (0 < left \<longrightarrow> 0 < n) \<and>
      snd (withRetry_loop ro sleep_ms fn left k w) =
        w\<lparr>requests := requests w @ replicate n u,
          sleeps := sleeps w @ map (\<lambda>i. baseDelayMs ro * 2 ^ (k + i)) [0..<n - 1]\<rparr>"
proof (induction left arbitrary: k w)
  case 0
  show ?case by simp
next
  case (Suc left)
  obtain r w' where step: "fn w = (r, w')"
    by (cases "fn w")
  have "snd (fn w) = w\<lparr>requests := requests w @ [u]\<rparr>"
    unfolding fn by (rule pm_request_world)
  with step have w': "w' = w\<lparr>requests := requests w @ [u]\<rparr>" by simp
  have once: "snd (withRetry_loop ro sleep_ms fn (Suc left) k w) = w' \<Longrightarrow> ?case"
    by (intro exI [of _ 1]) (simp add: w')
  show ?case
  proof (cases r)
    case (Inr v)
    with step show ?thesis by (intro once) simp
  next
    case (Inl e)
    show ?thesis
    proof (cases "\<not> retryable e \<or> left = 0")
      case True
      with step Inl show ?thesis by (intro once) auto
    next
      case False
      let ?w2 = "sleep_ms (baseDelayMs ro * 2 ^ k) w'"
      from False step Inl have eq: "withRetry_loop ro sleep_ms fn (Suc left) k w
        = withRetry_loop ro sleep_ms fn left (Suc k) ?w2" by simp
      from False have "0 < left" by simp
      with Suc.IH [of "Suc k" ?w2] obtain n where n: "n \<le> left" "0 < n"
        "snd (withRetry_loop ro sleep_ms fn left (Suc k) ?w2) =
          ?w2\<lparr>requests := requests ?w2 @ replicate n u,
            sleeps := sleeps ?w2 @ map (\<lambda>i. baseDelayMs ro * 2 ^ (Suc k + i)) [0..<n - 1]\<rparr>"
        by blast
      from n(2) obtain m where m: "n = Suc m" by (cases n) auto
      have shift: "map (\<lambda>i. baseDelayMs ro * 2 ^ (k + i)) [0..<Suc m] =
          (baseDelayMs ro * 2 ^ k) # map (\<lambda>i. baseDelayMs ro * 2 ^ (Suc k + i)) [0..<m]"
        by (simp add: upt_conv_Cons map_Suc_upt [symmetric] del: upt_Suc)
      have "snd (withRetry_loop ro sleep_ms fn (Suc left) k w) =
        w\<lparr>requests := requests w @ replicate (Suc n) u,
          sleeps := sleeps w @ map (\<lambda>i. baseDelayMs ro * 2 ^ (k + i)) [0..<Suc n - 1]\<rparr>"
        unfolding eq n(3) by (simp add: m shift w' sleep_ms_def replicate_append_same del: upt_Suc)
      with n(1) show ?thesis by (intro exI [of _ "Suc n"]) simp
    qed
  qed
qed

lemma retry_loop_succeeds:
  fixes fn :: "http_world \<Rightarrow> (('u, nat) thrown + 'a) \<times> http_world"
  assumes fn: "fn = pm_request env dec u"
  shows "j < left \<Longrightarrow>
   (\<forall>i<j. transient_reply (server env u (length (requests w) + i))) \<Longrightarrow>
   ok_reply (server env u (length (requests w) + j)) \<Longrightarrow>
   withRetry_loop ro sleep_ms fn left k w =
     (Inr (dec (reply_body (server env u (length (requests w) + j)))),
      w\<lparr>requests := requests w @ replicate (Suc j) u,
        sleeps := sleeps w @ map (\<lambda>i. baseDelayMs ro * 2 ^ (k + i)) [0..<j]\<rparr>)"
proof (induction j arbitrary: left k w)
  case 0
  then obtain l where l: "left = Suc l" by (cases left) auto
  from 0 have "ok_reply (server env u (length (requests w)))" by simp
  then have "fn w = (Inr (dec (reply_body (server env u (length (requests w))))),
      w\<lparr>requests := requests w @ [u]\<rparr>)"
    unfolding fn by (rule pm_request_ok)
  then show ?case by (simp add: l)
next
  case (Suc j)
  then obtain l where l: "left = Suc l" and jl: "j < l" by (cases left) auto
  from Suc.prems have "transient_reply (server env u (length (requests w)))" by force
  from pm_request_transient [OF this, of dec] obtain e where
    e: "fn w = (Inl e, w\<lparr>requests := requests w @ [u]\<rparr>)" "retryable e"
    unfolding fn by blast
  let ?w2 = "sleep_ms (baseDelayMs ro * 2 ^ k) (w\<lparr>requests := requests w @ [u]\<rparr>)"
  have len: "length (requests ?w2) = Suc (length (requests w))" by (simp add: sleep_ms_def)
  have tr: "\<forall>i<j. transient_reply (server env u (length (requests ?w2) + i))"
  proof (intro allI impI)
    fix i assume "i < j"
    then have "Suc i < Suc j" by simp
    with Suc.prems(2) have "transient_reply (server env u (length (requests w) + Suc i))" by blast
    then show "transient_reply (server env u (length (requests ?w2) + i))" by (simp add: len)
  qed
  have ok: "ok_reply (server env u (length (requests ?w2) + j))"
    using Suc.prems(3) by (simp add: len)
  have step: "withRetry_loop ro sleep_ms fn left k w =
     withRetry_loop ro sleep_ms fn l (Suc k) ?w2"
    using e jl by (simp add: l)
  have shift: "map (\<lambda>i. baseDelayMs ro * 2 ^ (k + i)) [0..<Suc j] =
      (baseDelayMs ro * 2 ^ k) # map (\<lambda>i. baseDelayMs ro * 2 ^ (Suc k + i)) [0..<j]"
    by (simp add: upt_conv_Cons map_Suc_upt [symmetric] del: upt_Suc)
  show ?case
    unfolding step Suc.IH [OF jl tr ok] shift
    by (simp add: sleep_ms_def len del: upt_Suc)
qed

lemma retry_loop_client_error:
  fixes fn :: "http_world \<Rightarrow> (('u, nat) thrown + 'a) \<times> http_world"
  assumes fn: "fn = pm_request env dec u"
    and "0 < left"
    and "server env u (length (requests w)) = Response st body" "400 \<le> st" "st < 500"
  shows "withRetry_loop ro sleep_ms fn left k w =
     (Inl (Thrown_HttpError (new_HttpError st (error_message env st body) None)),
      w\<lparr>requests := requests w @ [u]\<rparr>)"
proof -
  from assms(2) obtain l where l: "left = Suc l" by (cases left) auto
  have "fn w = (Inl (Thrown_HttpError (new_HttpError st (error_message env st body) None)),
      w\<lparr>requests := requests w @ [u]\<rparr>)
   \<and> \<not> retryable (Thrown_HttpError (new_HttpError st (error_message env st body) None) :: ('u, nat) thrown)"
    unfolding fn by (rule pm_request_client_error [OF assms(3-5)])
  then show ?thesis by (simp add: l)
qed

lemma retry_loop_fails:
  fixes fn :: "http_world \<Rightarrow> (('u, nat) thrown + 'a) \<times> http_world"
  assumes fn: "fn = pm_request env dec u"
  shows "j < left \<Longrightarrow>
   (\<forall>i<j. transient_reply (server env u (length (requests w) + i))) \<Longrightarrow>
   server env u (length (requests w) + j) = Response st body \<Longrightarrow> 400 \<le> st \<Longrightarrow> st < 500 \<Longrightarrow>
   withRetry_loop ro sleep_ms fn left k w =
     (Inl (Thrown_HttpError (new_HttpError st (error_message env st body) None)),
      w\<lparr>requests := requests w @ replicate (Suc j) u,
        sleeps := sleeps w @ map (\<lambda>i. baseDelayMs ro * 2 ^ (k + i)) [0..<j]\<rparr>)"
proof (induction j arbitrary: left k w)
  case 0
  then have "0 < left" "server env u (length (requests w)) = Response st body" by simp_all
  from retry_loop_client_error [OF fn this 0(4,5)] show ?case by simp
next
  case (Suc j)
  then obtain l where l: "left = Suc l" and jl: "j < l" by (cases left) auto
  from Suc.prems have "transient_reply (server env u (length (requests w)))" by force
  from pm_request_transient [OF this, of dec] obtain e where
    e: "fn w = (Inl e, w\<lparr>requests := requests w @ [u]\<rparr>)" "retryable e"
    unfolding fn by blast
  let ?w2 = "sleep_ms (baseDelayMs ro * 2 ^ k) (w\<lparr>requests := requests w @ [u]\<rparr>)"
  have len: "length (requests ?w2) = Suc (length (requests w))" by (simp add: sleep_ms_def)
  have tr: "\<forall>i<j. transient_reply (server env u (length (requests ?w2) + i))"
  proof (intro allI impI)
    fix i assume "i < j"
    then have "Suc i < Suc j" by simp
    with Suc.prems(2) have "transient_reply (server env u (length (requests w) + Suc i))" by blast
    then show "transient_reply (server env u (length (requests ?w2) + i))" by (simp add: len)
  qed
  have rp: "server env u (length (requests ?w2) + j) = Response st body"
    using Suc.prems(3) by (simp add: len)
  have step: "withRetry_loop ro sleep_ms fn left k w =
     withRetry_loop ro sleep_ms fn l (Suc k) ?w2"
    using e jl by (simp add: l)
  have shift: "map (\<lambda>i. baseDelayMs ro * 2 ^ (k + i)) [0..<Suc j] =
      (baseDelayMs ro * 2 ^ k) # map (\<lambda>i. baseDelayMs ro * 2 ^ (Suc k + i)) [0..<j]"
    by (simp add: upt_conv_Cons map_Suc_upt [symmetric] del: upt_Suc)
  show ?case
    unfolding step Suc.IH [OF jl tr rp Suc.prems(4,5)] shift
    by (simp add: sleep_ms_def len del: upt_Suc)
qed

text \<open>
  Claim C2. \<open>getMarkets\<close> and \<open>getMarket\<close> make some number \<open>n\<close> of requests, all to their
  own URL, with \<open>n\<close> at most the configured maximum of attempts, and before the retry that
  follows the \<open>i\<close>-th failed attempt they wait \<open>baseDelayMs * 2 ^ i\<close>. If the first \<open>j\<close>
  requests fail transiently (no response, or a 5xx status), \<open>j\<close> is below the maximum and
  the next request succeeds, the call returns that response decoded, after exactly
  \<open>j + 1\<close> requests.
\<close>

theorem markets_retry_bounded:
  fixes r :: "('u, nat) thrown + 'm list" and r' :: "('u, nat) thrown + 'm"
  assumes "getMarkets ro env this w = (r, w1)"
    and "getMarket ro env this marketId w = (r', w2)"
  shows "(\<exists>n\<le>maxAttempts ro.
            w1 = w\<lparr>requests := requests w @ replicate n (markets_url (metaBaseUrl this)),
                   sleeps := sleeps w @ map (\<lambda>i. baseDelayMs ro * 2 ^ i) [0..<n - 1]\<rparr>)
       \<and> (\<exists>n\<le>maxAttempts ro.
            w2 = w\<lparr>requests := requests w @ replicate n (market_url (metaBaseUrl this) marketId),
                   sleeps := sleeps w @ map (\<lambda>i. baseDelayMs ro * 2 ^ i) [0..<n - 1]\<rparr>)
       \<and> (\<forall>j<maxAttempts ro.
            (\<forall>i<j. transient_reply
               (server env (markets_url (metaBaseUrl this)) (length (requests w) + i))) \<longrightarrow>
            ok_reply (server env (markets_url (metaBaseUrl this)) (length (requests w) + j)) \<longrightarrow>
            r = Inr (decode_markets env (reply_body
                  (server env (markets_url (metaBaseUrl this)) (length (requests w) + j))))
            \<and> length (requests w1) = length (requests w) + Suc j)
       \<and> (\<forall>j<maxAttempts ro.
            (\<forall>i<j. transient_reply
               (server env (market_url (metaBaseUrl this) marketId) (length (requests w) + i))) \<longrightarrow>
            ok_reply (server env (market_url (metaBaseUrl this) marketId) (length (requests w) + j)) \<longrightarrow>
            r' = Inr (decode_market env (reply_body
                  (server env (market_url (metaBaseUrl this) marketId) (length (requests w) + j))))
            \<and> length (requests w2) = length (requests w) + Suc j)"
proof -
  define fn :: "http_world \<Rightarrow> (('u, nat) thrown + 'm list) \<times> http_world"
    where "fn = pm_request env (decode_markets env) (markets_url (metaBaseUrl this))"
  define fn' :: "http_world \<Rightarrow> (('u, nat) thrown + 'm) \<times> http_world"
    where "fn' = pm_request env (decode_market env) (market_url (metaBaseUrl this) marketId)"
  have run: "withRetry_loop ro sleep_ms fn (maxAttempts ro) 0 w = (r, w1)"
    using assms(1) by (simp add: fn_def getMarkets_def withRetry_def pmFetchMarkets_def [abs_def])
  have run': "withRetry_loop ro sleep_ms fn' (maxAttempts ro) 0 w = (r', w2)"
    using assms(2) by (simp add: fn'_def getMarket_def withRetry_def pmFetchMarket_def [abs_def])
  have a: "\<exists>n\<le>maxAttempts ro.
      w1 = w\<lparr>requests := requests w @ replicate n (markets_url (metaBaseUrl this)),
             sleeps := sleeps w @ map (\<lambda>i. baseDelayMs ro * 2 ^ i) [0..<n - 1]\<rparr>"
    using retry_loop_trace [OF fn_def, of "maxAttempts ro" ro 0 w] run by auto
  have b: "\<exists>n\<le>maxAttempts ro.
      w2 = w\<lparr>requests := requests w @ replicate n (market_url (metaBaseUrl this) marketId),
             sleeps := sleeps w @ map (\<lambda>i. baseDelayMs ro * 2 ^ i) [0..<n - 1]\<rparr>"
    using retry_loop_trace [OF fn'_def, of "maxAttempts ro" ro 0 w] run' by auto
  have c: "r = Inr (decode_markets env (reply_body
                  (server env (markets_url (metaBaseUrl this)) (length (requests w) + j))))
            \<and> length (requests w1) = length (requests w) + Suc j"
    if "j < maxAttempts ro"
      "\<forall>i<j. transient_reply (server env (markets_url (metaBaseUrl this)) (length (requests w) + i))"
      "ok_reply (server env (markets_url (metaBaseUrl this)) (length (requests w) + j))" for j
    using retry_loop_succeeds [OF fn_def that, of ro 0] run by simp
  have d: "r' = Inr (decode_market env (reply_body
                  (server env (market_url (metaBaseUrl this) marketId) (length (requests w) + j))))
            \<and> length (requests w2) = length (requests w) + Suc j"
    if "j < maxAttempts ro"
      "\<forall>i<j. transient_reply (server env (market_url (metaBaseUrl this) marketId) (length (requests w) + i))"
      "ok_reply (server env (market_url (metaBaseUrl this) marketId) (length (requests w) + j))" for j
    using retry_loop_succeeds [OF fn'_def that, of ro 0] run' by simp
  from a b c d show ?thesis by blast
qed

theorem markets_retry_bounded_witness:
  "getMarkets ex_retry ex_flaky ex_sdk ex_world =
     (Inr [''ok''] :: (unit, nat) thrown + string list,
      \<lparr>requests = replicate 3 ''https://meta.example/markets'', sleeps = [100, 200]\<rparr>)
   \<and> getMarket ex_retry ex_flaky ex_sdk ''m1'' ex_world =
     (Inr ''ok'' :: (unit, nat) thrown + string,
      \<lparr>requests = replicate 3 ''https://meta.example/markets/m1'', sleeps = [100, 200]\<rparr>)
   \<and> 2 < maxAttempts ex_retry
   \<and> transient_reply
         (server ex_flaky (markets_url (metaBaseUrl ex_sdk)) (length (requests ex_world) + 0))
   \<and> transient_reply
         (server ex_flaky (markets_url (metaBaseUrl ex_sdk)) (length (requests ex_world) + 1))
   \<and> ok_reply (server ex_flaky (markets_url (metaBaseUrl ex_sdk)) (length (requests ex_world) + 2))
   \<and> (\<exists>n\<le>maxAttempts ex_retry.
        \<lparr>requests = replicate 3 ''https://meta.example/markets'', sleeps = [100, 200]\<rparr> =
        ex_world\<lparr>requests := requests ex_world @ replicate n (markets_url (metaBaseUrl ex_sdk)),
          sleeps := sleeps ex_world @ map (\<lambda>i. baseDelayMs ex_retry * 2 ^ i) [0..<n - 1]\<rparr>)
   \<and> (Inr [''ok''] :: (unit, nat) thrown + string list) =
        Inr (decode_markets ex_flaky (reply_body
          (server ex_flaky (markets_url (metaBaseUrl ex_sdk)) (length (requests ex_world) + 2))))"
proof -
  have h1: "getMarkets ex_retry ex_flaky ex_sdk ex_world =
     (Inr [''ok''] :: (unit, nat) thrown + string list,
      \<lparr>requests = replicate 3 ''https://meta.example/markets'', sleeps = [100, 200]\<rparr>)"
    by (simp add: ex_defs http_defs error_defs eval_nat_numeral)
  have h2: "getMarket ex_retry ex_flaky ex_sdk ''m1'' ex_world =
     (Inr ''ok'' :: (unit, nat) thrown + string,
      \<lparr>requests = replicate 3 ''https://meta.example/markets/m1'', sleeps = [100, 200]\<rparr>)"
    by (simp add: ex_defs http_defs error_defs eval_nat_numeral)
  have h3: "2 < maxAttempts ex_retry" by (simp add: ex_defs)
  have h4: "\<forall>i<2. transient_reply
         (server ex_flaky (markets_url (metaBaseUrl ex_sdk)) (length (requests ex_world) + i))"
    by (simp add: ex_defs)
  have h5: "ok_reply (server ex_flaky (markets_url (metaBaseUrl ex_sdk)) (length (requests ex_world) + 2))"
    by (simp add: ex_defs)
  have h6: "transient_reply
         (server ex_flaky (markets_url (metaBaseUrl ex_sdk)) (length (requests ex_world) + 0))"
    "transient_reply
         (server ex_flaky (markets_url (metaBaseUrl ex_sdk)) (length (requests ex_world) + 1))"
    by (simp_all add: ex_defs)
  from markets_retry_bounded [OF h1 h2] h1 h2 h3 h4 h5 h6 show ?thesis by blast
qed

text \<open>
  Claim C3. Whenever a call of \<open>getMarkets\<close> or \<open>getMarket\<close> receives a client-error
  status (400 to 499, for instance 404), be it on its first request or on a later one
  that follows transient failures, the call ends there: it fails with an \<open>HttpError\<close>
  carrying that status, and no request and no wait follows the one that received it. In
  particular a client error on the first request fails the call after exactly one request
  and without waiting.
\<close>

theorem client_error_not_retried:
  fixes e :: "('u, nat) thrown" and env :: "'m http_env"
  assumes "j < maxAttempts ro" and "400 \<le> st" and "st < 500"
    and "e = Thrown_HttpError (new_HttpError st (error_message env st body) None)"
  shows "((\<forall>i<j. transient_reply
              (server env (markets_url (metaBaseUrl this)) (length (requests w) + i))) \<longrightarrow>
          server env (markets_url (metaBaseUrl this)) (length (requests w) + j) = Response st body \<longrightarrow>
            getMarkets ro env this w =
              (Inl e, w\<lparr>requests := requests w @ replicate (Suc j) (markets_url (metaBaseUrl this)),
                        sleeps := sleeps w @ map (\<lambda>i. baseDelayMs ro * 2 ^ i) [0..<j]\<rparr>))
       \<and> ((\<forall>i<j. transient_reply
              (server env (market_url (metaBaseUrl this) marketId) (length (requests w) + i))) \<longrightarrow>
          server env (market_url (metaBaseUrl this) marketId) (length (requests w) + j) = Response st body \<longrightarrow>
            getMarket ro env this marketId w =
              (Inl e, w\<lparr>requests := requests w @ replicate (Suc j) (market_url (metaBaseUrl this) marketId),
                        sleeps := sleeps w @ map (\<lambda>i. baseDelayMs ro * 2 ^ i) [0..<j]\<rparr>))
       \<and> (\<exists>h. e = Thrown_HttpError h \<and> status h = st \<and> instanceof h HttpErrorClass)"
proof -
  define fn :: "http_world \<Rightarrow> (('u, nat) thrown + 'm list) \<times> http_world"
    where "fn = pm_request env (decode_markets env) (markets_url (metaBaseUrl this))"
  define fn' :: "http_world \<Rightarrow> (('u, nat) thrown + 'm) \<times> http_world"
    where "fn' = pm_request env (decode_market env) (market_url (metaBaseUrl this) marketId)"
  have g: "getMarkets ro env this w = withRetry_loop ro sleep_ms fn (maxAttempts ro) 0 w"
    by (simp add: fn_def getMarkets_def withRetry_def pmFetchMarkets_def [abs_def])
  have g': "getMarket ro env this marketId w = withRetry_loop ro sleep_ms fn' (maxAttempts ro) 0 w"
    by (simp add: fn'_def getMarket_def withRetry_def pmFetchMarket_def [abs_def])
  have a: "getMarkets ro env this w =
      (Inl e, w\<lparr>requests := requests w @ replicate (Suc j) (markets_url (metaBaseUrl this)),
                sleeps := sleeps w @ map (\<lambda>i. baseDelayMs ro * 2 ^ i) [0..<j]\<rparr>)"
    if "\<forall>i<j. transient_reply
          (server env (markets_url (metaBaseUrl this)) (length (requests w) + i))"
      and "server env (markets_url (metaBaseUrl this)) (length (requests w) + j) = Response st body"
    unfolding g assms(4)
    using retry_loop_fails [OF fn_def assms(1) that assms(2,3), of ro 0] by simp
  have b: "getMarket ro env this marketId w =
      (Inl e, w\<lparr>requests := requests w @ replicate (Suc j) (market_url (metaBaseUrl this) marketId),
                sleeps := sleeps w @ map (\<lambda>i. baseDelayMs ro * 2 ^ i) [0..<j]\<rparr>)"
    if "\<forall>i<j. transient_reply
          (server env (market_url (metaBaseUrl this) marketId) (length (requests w) + i))"
      and "server env (market_url (metaBaseUrl this) marketId) (length (requests w) + j) = Response st body"
    unfolding g' assms(4)
    using retry_loop_fails [OF fn'_def assms(1) that assms(2,3), of ro 0] by simp
  have c: "\<exists>h. e = Thrown_HttpError h \<and> status h = st \<and> instanceof h HttpErrorClass"
    unfolding assms(4) by (simp add: error_defs instanceof_def)
  from a b c show ?thesis by blast
qed

theorem client_error_not_retried_witness:
  "0 < maxAttempts ex_retry \<and> 1 < maxAttempts ex_retry \<and> (400::nat) \<le> 404 \<and> (404::nat) < 500
   \<and> server ex_missing (markets_url (metaBaseUrl ex_sdk)) (length (requests ex_world) + 0) =
       Response 404 ''not found''
   \<and> getMarkets ex_retry ex_missing ex_sdk ex_world =
       (Inl (Thrown_HttpError (new_HttpError 404 ''not found'' None) :: (unit, nat) thrown),
        \<lparr>requests = [''https://meta.example/markets''], sleeps = []\<rparr>)
   \<and> getMarket ex_retry ex_missing ex_sdk ''m1'' ex_world =
       (Inl (Thrown_HttpError (new_HttpError 404 ''not found'' None) :: (unit, nat) thrown),
        \<lparr>requests = [''https://meta.example/markets/m1''], sleeps = []\<rparr>)
   \<and> transient_reply
        (server ex_busy_then_missing (markets_url (metaBaseUrl ex_sdk)) (length (requests ex_world) + 0))
   \<and> server ex_busy_then_missing (markets_url (metaBaseUrl ex_sdk)) (length (requests ex_world) + 1) =
       Response 404 ''not found''
   \<and> getMarkets ex_retry ex_busy_then_missing ex_sdk ex_world =
       (Inl (Thrown_HttpError (new_HttpError 404 ''not found'' None) :: (unit, nat) thrown),
        \<lparr>requests = [''https://meta.example/markets'', ''https://meta.example/markets''],
         sleeps = [100]\<rparr>)
   \<and> getMarket ex_retry ex_busy_then_missing ex_sdk ''m1'' ex_world =
       (Inl (Thrown_HttpError (new_HttpError 404 ''not found'' None) :: (unit, nat) thrown),
        \<lparr>requests = [''https://meta.example/markets/m1'', ''https://meta.example/markets/m1''],
         sleeps = [100]\<rparr>)"
proof -
  have a0: "0 < maxAttempts ex_retry" and a1: "1 < maxAttempts ex_retry"
    by (simp_all add: ex_defs)
  have lo: "(400::nat) \<le> 404" and hi: "(404::nat) < 500" by simp_all
  have e: "(Thrown_HttpError (new_HttpError 404 ''not found'' None) :: (unit, nat) thrown) =
      Thrown_HttpError (new_HttpError 404 (error_message ex_missing 404 ''not found'') None)"
    by (simp add: ex_defs)
  have e': "(Thrown_HttpError (new_HttpError 404 ''not found'' None) :: (unit, nat) thrown) =
      Thrown_HttpError (new_HttpError 404 (error_message ex_busy_then_missing 404 ''not found'') None)"
    by (simp add: ex_defs)
  have first: "getMarkets ex_retry ex_missing ex_sdk ex_world =
       (Inl (Thrown_HttpError (new_HttpError 404 ''not found'' None) :: (unit, nat) thrown),
        \<lparr>requests = [''https://meta.example/markets''], sleeps = []\<rparr>)
     \<and> getMarket ex_retry ex_missing ex_sdk ''m1'' ex_world =
       (Inl (Thrown_HttpError (new_HttpError 404 ''not found'' None) :: (unit, nat) thrown),
        \<lparr>requests = [''https://meta.example/markets/m1''], sleeps = []\<rparr>)"
    using client_error_not_retried [OF a0 lo hi e, of ex_sdk ex_world "''m1''"]
    by (simp add: ex_defs markets_url_def market_url_def new_POLYCAVORASDK_def empty_config_def
        nullish_def Let_def)
  have later: "getMarkets ex_retry ex_busy_then_missing ex_sdk ex_world =
       (Inl (Thrown_HttpError (new_HttpError 404 ''not found'' None) :: (unit, nat) thrown),
        \<lparr>requests = [''https://meta.example/markets'', ''https://meta.example/markets''],
         sleeps = [100]\<rparr>)
     \<and> getMarket ex_retry ex_busy_then_missing ex_sdk ''m1'' ex_world =
       (Inl (Thrown_HttpError (new_HttpError 404 ''not found'' None) :: (unit, nat) thrown),
        \<lparr>requests = [''https://meta.example/markets/m1'', ''https://meta.example/markets/m1''],
         sleeps = [100]\<rparr>)"
    using client_error_not_retried [OF a1 lo hi e', of ex_sdk ex_world "''m1''"]
    by (simp add: ex_defs markets_url_def market_url_def new_POLYCAVORASDK_def empty_config_def
        nullish_def Let_def)
  have r0: "server ex_missing (markets_url (metaBaseUrl ex_sdk)) (length (requests ex_world) + 0) =
       Response 404 ''not found''"
    and r1: "transient_reply
        (server ex_busy_then_missing (markets_url (metaBaseUrl ex_sdk)) (length (requests ex_world) + 0))"
    and r2: "server ex_busy_then_missing (markets_url (metaBaseUrl ex_sdk)) (length (requests ex_world) + 1) =
       Response 404 ''not found''"
    by (simp_all add: ex_defs)
  from a0 a1 lo hi first later r0 r1 r2 show ?thesis by blast
qed

section \<open>Properties of the streaming layer\<close>

lemma handle_after_close:
  assumes "state s = Closing \<or> state s = Closed"
  shows "(state (handle parse e s) = Closing \<or> state (handle parse e s) = Closed)
       \<and> callbacks (handle parse e s) = callbacks s
       \<and> take (length (calls s)) (calls (handle parse e s)) = calls s"
  using assms
  by (cases e) (auto simp: callbacks_def invoke_hook_def invoke_def)

lemma run_after_close:
  "state s = Closing \<or> state s = Closed \<Longrightarrow>
   callbacks (run parse es s) = callbacks s
   \<and> take (length (calls s)) (calls (run parse es s)) = calls s"
proof (induction es arbitrary: s)
  case Nil
  show ?case by (simp add: run_def)
next
  case (Cons e es)
  let ?t = "handle parse e s"
  from handle_after_close [OF Cons.prems, of parse e]
  have st: "state ?t = Closing \<or> state ?t = Closed"
    and cb: "callbacks ?t = callbacks s"
    and pre: "take (length (calls s)) (calls ?t) = calls s" by simp_all
  from Cons.IH [OF st]
  have cb': "callbacks (run parse es ?t) = callbacks ?t"
    and pre': "take (length (calls ?t)) (calls (run parse es ?t)) = calls ?t" by simp_all
  have r: "run parse (e # es) s = run parse es ?t" by (simp add: run_def)
  have len: "length (calls s) \<le> length (calls ?t)"
    using pre by (metis length_take min.cobounded2 min.commute)
  have "take (length (calls s)) (calls (run parse es ?t)) =
        take (length (calls s)) (take (length (calls ?t)) (calls (run parse es ?t)))"
    using len by (simp add: min_def)
  also have "\<dots> = calls s" by (simp only: pre' pre)
  finally show ?case using cb cb' r by simp
qed

lemma unsubscribe_closes:
  "state (unsubscribe parse s) = Closing \<or> state (unsubscribe parse s) = Closed"
  by (cases "state s") (simp_all add: unsubscribe_def)

text \<open>
  Claim C1. Once the function returned by \<open>onOrderbook\<close> has been called, whatever
  events follow (frames, socket events, further calls of the function), the update
  callback is invoked no more: its invocations are those made before the call, and the
  invocations made before remain a prefix of the list. Calling the function twice is
  the same as calling it once, the connection is closing or closed after it, and when it
  is called on a subscription that has not opened yet the callback is never invoked.
\<close>

theorem unsubscribe_stops_callbacks:
  "callbacks (run parse es (unsubscribe parse s)) = callbacks s
   \<and> take (length (calls s)) (calls (run parse es (unsubscribe parse s))) = calls s
   \<and> unsubscribe parse (unsubscribe parse s) = unsubscribe parse s
   \<and> (state (unsubscribe parse s) = Closing \<or> state (unsubscribe parse s) = Closed)
   \<and> callbacks (run parse es (unsubscribe parse (onOrderbook this marketId os))) = []"
proof -
  have c: "calls (unsubscribe parse t) = calls t" for t
    by (simp add: unsubscribe_def)
  then have cb: "callbacks (unsubscribe parse t) = callbacks t" for t
    by (simp add: callbacks_def)
  have a: "callbacks (run parse es (unsubscribe parse t)) = callbacks t
     \<and> take (length (calls t)) (calls (run parse es (unsubscribe parse t))) = calls t" for t
    using run_after_close [OF unsubscribe_closes, of parse es parse t] by (simp add: c cb)
  have i: "unsubscribe parse (unsubscribe parse s) = unsubscribe parse s"
    by (simp add: unsubscribe_def)
  have n: "callbacks (onOrderbook this marketId os) = []"
    by (simp add: onOrderbook_def pmSubscribeOrderbook_def callbacks_def)
  from a [of s] a [of "onOrderbook this marketId os"] i n unsubscribe_closes [of parse s]
  show ?thesis by simp
qed

theorem unsubscribe_stops_callbacks_witness:
  "callbacks (run ex_parse [SocketMessage ''D1'', Unsubscribe, SocketMessage ''D2'', SocketClose]
      (unsubscribe ex_parse (run ex_parse [SocketOpen, SocketMessage ''S''] (onOrderbook ex_sdk ''m1'' None))))
     = [Callback (snapshot ex_book)]
   \<and> callbacks (run ex_parse [SocketOpen, SocketMessage ''S'', SocketMessage ''D1'']
      (unsubscribe ex_parse (onOrderbook ex_sdk ''m1'' None))) = []"
proof -
  have a: "callbacks (run ex_parse [SocketOpen, SocketMessage ''S''] (onOrderbook ex_sdk ''m1'' None))
      = [Callback (snapshot ex_book)]"
    by (simp add: run_def onOrderbook_def pmSubscribeOrderbook_def callbacks_def invoke_def
        invoke_hook_def hook_present_def decode_frame_def ex_parse_def ex_book_def)
  have b: "callbacks (run ex_parse [SocketMessage ''D1'', Unsubscribe, SocketMessage ''D2'', SocketClose]
      (unsubscribe ex_parse (run ex_parse [SocketOpen, SocketMessage ''S''] (onOrderbook ex_sdk ''m1'' None))))
     = callbacks (run ex_parse [SocketOpen, SocketMessage ''S''] (onOrderbook ex_sdk ''m1'' None))"
    using unsubscribe_stops_callbacks
      [of ex_parse "[SocketMessage ''D1'', Unsubscribe, SocketMessage ''D2'', SocketClose]"
        "run ex_parse [SocketOpen, SocketMessage ''S''] (onOrderbook ex_sdk ''m1'' None)"
        ex_sdk "''m1''" None]
    by blast
  have c: "callbacks (run ex_parse [SocketOpen, SocketMessage ''S'', SocketMessage ''D1'']
      (unsubscribe ex_parse (onOrderbook ex_sdk ''m1'' None))) = []"
    using unsubscribe_stops_callbacks
      [of ex_parse "[SocketOpen, SocketMessage ''S'', SocketMessage ''D1'']"
        "onOrderbook ex_sdk ''m1'' None" ex_sdk "''m1''" None]
    by blast
  from a b c show ?thesis by simp
qed

lemma frames_delivered:
  "state s = Open \<Longrightarrow> map (decode_frame parse) fs = map Some us \<Longrightarrow>
   run parse (map SocketMessage fs) s = s\<lparr>calls := calls s @ map Callback us\<rparr>"
proof (induction fs arbitrary: s us)
  case Nil
  then show ?case by (simp add: run_def)
next
  case (Cons f fs)
  from Cons.prems(2) obtain u us' where us: "us = u # us'" "decode_frame parse f = Some u"
    "map (decode_frame parse) fs = map Some us'" by (cases us) auto
  let ?t = "invoke (Callback u) s"
  have h: "handle parse (SocketMessage f) s = ?t" using Cons.prems(1) us(2) by simp
  have "state ?t = Open" using Cons.prems(1) by (simp add: invoke_def)
  from Cons.IH [OF this us(3)] have "run parse (map SocketMessage fs) ?t =
     ?t\<lparr>calls := calls ?t @ map Callback us'\<rparr>" .
  moreover have "run parse (map SocketMessage (f # fs)) s = run parse (map SocketMessage fs) ?t"
    using h by (simp add: run_def)
  ultimately show ?case by (simp add: us(1) invoke_def)
qed

text \<open>
  Claim C5. On an open subscription a sequence of frames that each parse to a \<open>snapshot\<close>
  or a \<open>delta\<close> yields one callback invocation per frame, carrying the decoded updates in
  the order of arrival; on a fresh subscription that opens and then receives the frames,
  these are all the callback invocations, as many as there are frames. A frame that parses
  to an object tagged \<open>snapshot\<close> (\<open>delta\<close>) with a \<open>data\<close> field is decoded as the
  \<open>snapshot\<close> (\<open>delta\<close>) update carrying that data.
\<close>

theorem frames_delivered_in_order:
  assumes "map (decode_frame parse) fs = map Some us"
  shows "(state s = Open \<longrightarrow>
            calls (run parse (map SocketMessage fs) s) = calls s @ map Callback us)
       \<and> callbacks (run parse (SocketOpen # map SocketMessage fs) (onOrderbook this marketId os))
            = map Callback us
       \<and> length (callbacks (run parse (SocketOpen # map SocketMessage fs)
            (onOrderbook this marketId os))) = length fs
       \<and> (\<forall>obj d. parse f = Some (JObj obj) \<longrightarrow> map_of obj ''data'' = Some d \<longrightarrow>
            (map_of obj ''type'' = Some (JStr ''snapshot'') \<longrightarrow> decode_frame parse f = Some (snapshot d))
          \<and> (map_of obj ''type'' = Some (JStr ''delta'') \<longrightarrow> decode_frame parse f = Some (delta d)))"
proof -
  have a: "calls (run parse (map SocketMessage fs) s) = calls s @ map Callback us"
    if "state s = Open"
    using frames_delivered [OF that assms] by simp
  let ?s0 = "onOrderbook this marketId os"
  let ?s1 = "handle parse SocketOpen ?s0"
  have o: "state ?s1 = Open" "callbacks ?s1 = []"
    by (simp_all add: onOrderbook_def pmSubscribeOrderbook_def invoke_hook_def invoke_def callbacks_def)
  have r: "run parse (SocketOpen # map SocketMessage fs) ?s0 = run parse (map SocketMessage fs) ?s1"
    by (simp add: run_def)
  have "calls (run parse (map SocketMessage fs) ?s1) = calls ?s1 @ map Callback us"
    using frames_delivered [OF o(1) assms] by simp
  then have "callbacks (run parse (map SocketMessage fs) ?s1) = callbacks ?s1 @ map Callback us"
    by (simp add: callbacks_def filter_id_conv [THEN iffD2])
  with o(2) r have b: "callbacks (run parse (SocketOpen # map SocketMessage fs) ?s0) = map Callback us"
    by simp
  have "length us = length fs" using assms by (metis length_map)
  with b have c: "length (callbacks (run parse (SocketOpen # map SocketMessage fs) ?s0)) = length fs"
    by simp
  have d: "\<forall>obj d. parse f = Some (JObj obj) \<longrightarrow> map_of obj ''data'' = Some d \<longrightarrow>
            (map_of obj ''type'' = Some (JStr ''snapshot'') \<longrightarrow> decode_frame parse f = Some (snapshot d))
          \<and> (map_of obj ''type'' = Some (JStr ''delta'') \<longrightarrow> decode_frame parse f = Some (delta d))"
    by (simp add: decode_frame_def)
  from a b c d show ?thesis by blast
qed

theorem frames_delivered_in_order_witness:
  "map (decode_frame ex_parse) [''S'', ''D1'', ''D2''] =
     map Some [snapshot ex_book, delta (JNum 1), delta (JNum 2)]
   \<and> callbacks (run ex_parse [SocketOpen, SocketMessage ''S'', SocketMessage ''D1'', SocketMessage ''D2'']
        (onOrderbook ex_sdk ''m1'' None))
      = [Callback (snapshot ex_book), Callback (delta (JNum 1)), Callback (delta (JNum 2))]
   \<and> length (callbacks (run ex_parse
        [SocketOpen, SocketMessage ''S'', SocketMessage ''D1'', SocketMessage ''D2'']
        (onOrderbook ex_sdk ''m1'' None))) = 3"
proof -
  have h: "map (decode_frame ex_parse) [''S'', ''D1'', ''D2''] =
     map Some [snapshot ex_book, delta (JNum 1), delta (JNum 2)]"
    by (simp add: decode_frame_def ex_parse_def ex_book_def)
  from frames_delivered_in_order [OF h, of _ ex_sdk "''m1''" None] h
  show ?thesis by simp
qed

section \<open>Properties of the relayer's polling\<close>






end
